theory Spec2Isabelle
  imports Main "HOL-Library.Word"
begin

section \<open>Bytes, errors and decimal formatting\<close>

text \<open>
  A Go byte slice is a list of bytes; \<open>string\<close> (a list of 8-bit characters) is used for
  both \<open>[]byte\<close> and Go strings, so that records can be written as literals.
\<close>

type_synonym bytes = string

text \<open>
  A Go \<open>error\<close> value. \<open>ErrorString\<close> is an error made of a message alone (an error of a
  collaborator, or \<open>fmt.Errorf\<close> without \<open>%w\<close>); \<open>WrapError p e\<close> is
  \<open>fmt.Errorf(p + "%w", e)\<close>. A nil error is \<open>None\<close> of type \<open>error option\<close>.
\<close>

datatype error = ErrorString string | WrapError string error

fun Error :: "error \<Rightarrow> string" where
  "Error (ErrorString s) = s"
| "Error (WrapError p e) = p @ Error e"

fun Unwrap :: "error \<Rightarrow> error option" where
  "Unwrap (ErrorString s) = None"
| "Unwrap (WrapError p e) = Some e"

text \<open>A call either returns or panics (a run-time error of Go).\<close>

datatype 'a outcome = Panic string | Return 'a

text \<open>\<open>strconv.Itoa\<close> and the verb \<open>%d\<close>: the decimal digits of an integer.\<close>

definition digit :: "nat \<Rightarrow> char" where
  "digit d = char_of (48 + d)"

function digits :: "nat \<Rightarrow> string" where
  "digits n = (if n < 10 then [digit n] else digits (n div 10) @ [digit (n mod 10)])"
  by pat_completeness auto
termination
  by (relation "measure (\<lambda>n. n)") auto

declare digits.simps [simp del]

definition Itoa :: "int \<Rightarrow> string" where
  "Itoa i = (if i < 0 then CHR ''-'' # digits (nat (- i)) else digits (nat i))"

type_synonym Duration = int

definition Second :: Duration where
  "Second = 1000000000"

section \<open>The remote service interface\<close>

text \<open>
  The request and response of the bulk write (\<open>kinesis.PutRecordsInput\<close>,
  \<open>kinesis.PutRecordsOutput\<close> and their entries), with the fields the writer reads or
  sets. A Go pointer field is an \<open>option\<close>; the failed count, a pointer to an \<open>int32\<close>
  on which no arithmetic is done, is an \<open>int option\<close>.
\<close>

record PutRecordsRequestEntry =
  Data :: bytes
  PartitionKey :: "string option"

record PutRecordsInput =
  Records :: "PutRecordsRequestEntry list"
  StreamARN :: "string option"

record PutRecordsResultEntry =
  ErrorCode :: "string option"
  SequenceNumber :: "string option"
  ShardId :: "string option"

record PutRecordsOutput =
  ResultRecords :: "PutRecordsResultEntry list"
  FailedRecordCount :: "int option"

text \<open>
  The world outside the writer: the process-wide source of \<open>math/rand\<close> (the values it
  yields, by draw index, and how many were drawn) and the state of the remote client.
\<close>

record 's world =
  rand :: "nat \<Rightarrow> int"
  drawn :: nat
  remote :: 's

definition rand_Int :: "'s world \<Rightarrow> int \<times> 's world" where
  "rand_Int w = (rand w (drawn w), w\<lparr>drawn := Suc (drawn w)\<rparr>)"

text \<open>
  A context with a deadline is represented by the number of retry delays that can still
  elapse before the deadline passes.
\<close>

type_synonym Context = nat

text \<open>
  \<open>KinesisClient\<close>: the one method \<open>PutRecords\<close>, which returns an error or an output and
  may change the world; the optional functions of the call, which the writer never
  passes, are left out. One remote call, as it was issued and answered:
\<close>

type_synonym 's KinesisClient =
  "Context \<Rightarrow> PutRecordsInput \<Rightarrow> 's world \<Rightarrow> (error + PutRecordsOutput) \<times> 's world"

type_synonym call = "PutRecordsInput \<times> (error + PutRecordsOutput)"

section \<open>The retry policy\<close>

text \<open>
  Modelled from the spec: the retry library (package \<open>retry\<close>, imported by
  \<open>flusher.go\<close>) is not under \<open>src/\<close>. A policy bounds the number of attempts by
  \<open>MaxCount\<close> (zero or less: unbounded); \<open>Continue\<close> lets the first attempt run at once
  and every later one after a delay that must elapse before the deadline of the context.
\<close>

record Policy =
  MinDelay :: Duration
  MaxDelay :: Duration
  MaxCount :: int

record Retrier =
  ctx :: Context
  policy :: Policy
  count :: int

definition Start :: "Policy \<Rightarrow> Context \<Rightarrow> Retrier" where
  "Start p c = \<lparr>ctx = c, policy = p, count = 0\<rparr>"

definition Continue :: "Retrier \<Rightarrow> bool \<times> Retrier" where
  "Continue r =
     (let r1 = r\<lparr>count := count r + 1\<rparr> in
      if count r1 = 1 then (True, r1)
      else if 0 < MaxCount (policy r1) \<and> MaxCount (policy r1) < count r1 then (False, r1)
      else (case ctx r1 of 0 \<Rightarrow> (False, r1) | Suc k \<Rightarrow> (True, r1\<lparr>ctx := k\<rparr>)))"

section \<open>The flusher (flusher.go)\<close>

record 's flusher =
  client :: "'s KinesisClient"
  flushTimeout :: Duration
  streamARN :: string

text \<open>\<open>putRecords\<close>, lines 60 to 67: one entry per record, each with a fresh random key.\<close>

fun mkEntries :: "bytes list \<Rightarrow> 's world \<Rightarrow> PutRecordsRequestEntry list \<times> 's world" where
  "mkEntries [] w = ([], w)"
| "mkEntries (r # rs) w =
     (case rand_Int w of (key, w1) \<Rightarrow>
        (case mkEntries rs w1 of (es, w2) \<Rightarrow>
           (\<lparr>Data = r, PartitionKey = Some (Itoa key)\<rparr> # es, w2)))"

text \<open>
  \<open>putRecords\<close>, lines 81 to 85: the loop over the result entries, at index \<open>i\<close>, with
  the failed records collected so far. \<open>records[i]\<close> panics out of range.
\<close>

fun failedLoop ::
  "bytes list \<Rightarrow> nat \<Rightarrow> PutRecordsResultEntry list \<Rightarrow> bytes list \<Rightarrow> bytes list outcome" where
  "failedLoop records i [] failedRecords = Return failedRecords"
| "failedLoop records i (rr # rrs) failedRecords =
     (if ErrorCode rr \<noteq> None then
        (if i < length records
         then failedLoop records (Suc i) rrs (failedRecords @ [records ! i])
         else Panic ''index out of range'')
      else failedLoop records (Suc i) rrs failedRecords)"

text \<open>
  \<open>putRecords\<close>, lines 76 to 86: the failed subset read from a response. \<open>make\<close> panics
  on a negative capacity.
\<close>

definition failedOf :: "bytes list \<Rightarrow> PutRecordsOutput \<Rightarrow> bytes list outcome" where
  "failedOf records ret =
     (case FailedRecordCount ret of
        None \<Rightarrow> Return []
      | Some n \<Rightarrow>
          if n = 0 then Return []
          else if n < 0 then Panic ''makeslice: cap out of range''
          else failedLoop records 0 (ResultRecords ret) [])"

text \<open>
  \<open>putRecords\<close>: the failed records or an error, with the remote call it issued and the
  world after it.
\<close>

definition putRecords ::
  "'s flusher \<Rightarrow> Context \<Rightarrow> bytes list \<Rightarrow> 's world \<Rightarrow>
     (error + bytes list) outcome \<times> call \<times> 's world" where
  "putRecords f c records w =
     (case mkEntries records w of (entries, w1) \<Rightarrow>
        (let input = \<lparr>Records = entries, StreamARN = Some (streamARN f)\<rparr> in
         (case client f c input w1 of
            (Inl err, w2) \<Rightarrow>
              (Return (Inl (WrapError ''failed to put records: '' err)), (input, Inl err), w2)
          | (Inr ret, w2) \<Rightarrow>
              (case failedOf records ret of
                 Panic m \<Rightarrow> (Panic m, (input, Inr ret), w2)
               | Return failedRecords \<Rightarrow> (Return (Inr failedRecords), (input, Inr ret), w2)))))"

definition retryPolicy :: "'s flusher \<Rightarrow> Policy" where
  "retryPolicy f = \<lparr>MinDelay = 5 * Second, MaxDelay = flushTimeout f, MaxCount = 3\<rparr>"

text \<open>
  \<open>Flush\<close>, lines 40 to 50: the retry loop. It ends with an error (\<open>Inl\<close>, the early
  return of line 45) or with the records that are still failed (\<open>Inr\<close>), and lists the
  remote calls it issued. The diagnostic line written by \<open>log.Printf\<close> is left out.
\<close>

function Flush_retry ::
  "'s flusher \<Rightarrow> Context \<Rightarrow> Retrier \<Rightarrow> bytes list \<Rightarrow> 's world \<Rightarrow>
     (error + bytes list) outcome \<times> call list \<times> 's world" where
  "Flush_retry f c r failedRecords w =
     (case Continue r of
        (False, r') \<Rightarrow> (Return (Inr failedRecords), [], w)
      | (True, r') \<Rightarrow>
          (case putRecords f c failedRecords w of
             (Panic m, cl, w') \<Rightarrow> (Panic m, [cl], w')
           | (Return (Inl err), cl, w') \<Rightarrow>
               (Return (Inl (WrapError ''failed to put records: '' err)), [cl], w')
           | (Return (Inr failedRecords'), cl, w') \<Rightarrow>
               if length failedRecords' = 0 then (Return (Inr failedRecords'), [cl], w')
               else (case Flush_retry f c r' failedRecords' w' of
                       (res, cls, w'') \<Rightarrow> (res, cl # cls, w''))))"
  by pat_completeness auto
termination
  by (relation "measure (\<lambda>(f, c, r, fr, w). 2 * ctx r + (if count r = 0 then 1 else 0))")
     (auto simp: Continue_def Let_def split: if_splits nat.splits)

declare Flush_retry.simps [simp del]

text \<open>
  \<open>Flush\<close>: the error it returns (\<open>None\<close> is nil), the remote calls it issued, in order,
  and the world after them. The context made by \<open>context.WithTimeout\<close> is the
  argument \<open>c\<close>.
\<close>

definition Flush ::
  "'s flusher \<Rightarrow> Context \<Rightarrow> bytes list \<Rightarrow> 's world \<Rightarrow>
     error option outcome \<times> call list \<times> 's world" where
  "Flush f c records w =
     (case putRecords f c records w of
        (Panic m, cl, w1) \<Rightarrow> (Panic m, [cl], w1)
      | (Return (Inl err), cl, w1) \<Rightarrow>
          (Return (Some (WrapError ''failed to put records: '' err)), [cl], w1)
      | (Return (Inr failedRecords), cl, w1) \<Rightarrow>
          if length failedRecords = 0 then (Return None, [cl], w1)
          else (case Flush_retry f c (Start (retryPolicy f) c) failedRecords w1 of
                  (Panic m, cls, w2) \<Rightarrow> (Panic m, cl # cls, w2)
                | (Return (Inl err), cls, w2) \<Rightarrow> (Return (Some err), cl # cls, w2)
                | (Return (Inr failedRecords'), cls, w2) \<Rightarrow>
                    if 0 < length failedRecords'
                    then (Return (Some (ErrorString
                            (''failed to put records: '' @ Itoa (int (length failedRecords'))
                               @ '' records are failed''))), cl # cls, w2)
                    else (Return None, cl # cls, w2)))"

section \<open>The clients of the tests (writer\_test.go)\<close>

text \<open>
  Both test clients keep the inputs they received. \<open>successKinesisClient\<close> answers every
  record with a sequence number and a shard, and sets no failed count.
\<close>

fun successEntries ::
  "PutRecordsRequestEntry list \<Rightarrow> 's world \<Rightarrow> PutRecordsResultEntry list \<times> 's world" where
  "successEntries [] w = ([], w)"
| "successEntries (p # ps) w =
     (case rand_Int w of (a, w1) \<Rightarrow>
        (case rand_Int w1 of (b, w2) \<Rightarrow>
           (case successEntries ps w2 of (es, w3) \<Rightarrow>
              (\<lparr>ErrorCode = None, SequenceNumber = Some (Itoa a), ShardId = Some (Itoa b)\<rparr> # es,
               w3))))"

definition successKinesisClient :: "(PutRecordsInput list) KinesisClient" where
  "successKinesisClient c params w =
     (case successEntries (Records params) (w\<lparr>remote := remote w @ [params]\<rparr>) of
        (entries, w') \<Rightarrow> (Inr \<lparr>ResultRecords = entries, FailedRecordCount = None\<rparr>, w'))"



section \<open>Configuration (flusher.go, lines 100 to 182)\<close>

definition defaultBufferRecordWindow :: "32 word" where
  "defaultBufferRecordWindow = 10"

definition defaultBufferWriteTimeout :: Duration where
  "defaultBufferWriteTimeout = 5 * Second"

definition defaultBufferFlushTimeout :: Duration where
  "defaultBufferFlushTimeout = 30 * Second"

definition defaultBufferFlushInterval :: Duration where
  "defaultBufferFlushInterval = 30 * Second"

text \<open>An error handler is represented by the text it writes to the standard error stream.\<close>

type_synonym ErrHandler = "error \<Rightarrow> bytes list \<Rightarrow> string"

definition defaultBufferErrorHandler :: ErrHandler where
  "defaultBufferErrorHandler err elements =
     ''async-buffer: error '' @ Error err
       @ concat (map (\<lambda>(i, elem). ''failed to write logs ['' @ Itoa (int i) @ '']='' @ elem)
           (enumerate 0 elements))"

text \<open>
  A split function is represented by the tokens that a \<open>bufio.Scanner\<close> driven by it
  yields on an input held in memory. \<open>ScanLines\<close>: each line without its end-of-line
  marker (a line feed, with one carriage return before it dropped); a last line without
  line feed counts when it is not empty; the scanner stops, with an error that
  \<open>Writer.Write\<close> does not read, at a line that does not fit its buffer of
  \<open>MaxScanTokenSize\<close> bytes.
\<close>

type_synonym SplitFunc = "bytes \<Rightarrow> bytes list"

definition LF :: char where
  "LF = CHR 0x0A"

definition CR :: char where
  "CR = CHR 0x0D"

definition MaxScanTokenSize :: nat where
  "MaxScanTokenSize = 64 * 1024"

definition dropCR :: "bytes \<Rightarrow> bytes" where
  "dropCR data = (if data \<noteq> [] \<and> last data = CR then butlast data else data)"

function ScanLines :: SplitFunc where
  "ScanLines p =
     (if p = [] then []
      else (let line = takeWhile (\<lambda>b. b \<noteq> LF) p in
            if MaxScanTokenSize \<le> length line then []
            else dropCR line # ScanLines (drop (Suc (length line)) p)))"
  by pat_completeness auto
termination
  by (relation "measure length") auto

declare ScanLines.simps [simp del]

text \<open>
  The fields of \<open>bufferConfig\<close> and \<open>writerConfig\<close>; \<open>flushTimeout\<close> and \<open>client\<close> are
  written \<open>bufferFlushTimeout\<close> and \<open>configClient\<close> here, apart from the fields of the
  flusher. A nil client is \<open>None\<close>.
\<close>

record bufferConfig =
  recordWindow :: "32 word"
  writeTimeout :: Duration
  bufferFlushTimeout :: Duration
  flushInterval :: Duration
  errorHandler :: ErrHandler

record 's writerConfig =
  splitFunc :: SplitFunc
  bufferConfig :: bufferConfig
  configClient :: "'s KinesisClient option"

type_synonym 's WriterConfigOption = "'s writerConfig \<Rightarrow> 's writerConfig"

definition WithSplitFunc :: "SplitFunc \<Rightarrow> 's WriterConfigOption" where
  "WithSplitFunc fn c = c\<lparr>splitFunc := fn\<rparr>"


definition WithBufferRecordWindow :: "32 word \<Rightarrow> 's WriterConfigOption" where
  "WithBufferRecordWindow window c = c\<lparr>bufferConfig := (bufferConfig c)\<lparr>recordWindow := window\<rparr>\<rparr>"

definition WithBufferWriteTimeout :: "Duration \<Rightarrow> 's WriterConfigOption" where
  "WithBufferWriteTimeout timeout c =
     c\<lparr>bufferConfig := (bufferConfig c)\<lparr>writeTimeout := timeout\<rparr>\<rparr>"

definition WithBufferFlushTimeout :: "Duration \<Rightarrow> 's WriterConfigOption" where
  "WithBufferFlushTimeout timeout c =
     c\<lparr>bufferConfig := (bufferConfig c)\<lparr>bufferFlushTimeout := timeout\<rparr>\<rparr>"

definition WithBufferFlushInterval :: "Duration \<Rightarrow> 's WriterConfigOption" where
  "WithBufferFlushInterval interval c =
     c\<lparr>bufferConfig := (bufferConfig c)\<lparr>flushInterval := interval\<rparr>\<rparr>"

definition WithBufferErrorHandler :: "ErrHandler \<Rightarrow> 's WriterConfigOption" where
  "WithBufferErrorHandler handler c =
     c\<lparr>bufferConfig := (bufferConfig c)\<lparr>errorHandler := handler\<rparr>\<rparr>"

section \<open>The buffer the writer rests on\<close>

text \<open>
  The buffering library (package \<open>buffer\<close>, imported by the writer) is not under
  \<open>src/\<close>; the writer is modelled over any implementation of the four operations it
  calls, on a buffer state \<open>'b\<close>. \<open>Flush\<close> of that library returns nothing.
\<close>

record BufferOption =
  Threshold :: "32 word"
  WriteTimeout :: Duration
  FlushTimeout :: Duration
  FlushInterval :: Duration
  ErrHandler :: ErrHandler

record ('s, 'b) buffer =
  buffer_New :: "'s flusher \<Rightarrow> BufferOption \<Rightarrow> 'b"
  buffer_Write :: "bytes list \<Rightarrow> 'b \<Rightarrow> (int \<times> error option) \<times> 'b"
  buffer_Flush :: "'b \<Rightarrow> 'b"
  buffer_Close :: "'b \<Rightarrow> error option \<times> 'b"

section \<open>The writer (writer.go)\<close>

text \<open>The writer, without its field \<open>ctx\<close>, which is never set nor read.\<close>

record ('s, 'b) Writer =
  config :: "'s writerConfig"
  kinesisBuffer :: 'b

text \<open>
  \<open>New\<close>. The argument \<open>loadDefault\<close> is the outcome of resolving a client from the
  ambient AWS configuration (\<open>config.LoadDefaultConfig\<close>, then \<open>kinesis.NewFromConfig\<close>).
\<close>

definition New ::
  "('s, 'b) buffer \<Rightarrow> error + 's KinesisClient \<Rightarrow> string \<Rightarrow> 's WriterConfigOption list \<Rightarrow>
     error + ('s, 'b) Writer" where
  "New lib loadDefault arn opts =
     (let conf0 = \<lparr>splitFunc = ScanLines,
                   bufferConfig = \<lparr>recordWindow = defaultBufferRecordWindow,
                                   writeTimeout = defaultBufferWriteTimeout,
                                   bufferFlushTimeout = defaultBufferFlushTimeout,
                                   flushInterval = defaultBufferFlushInterval,
                                   errorHandler = defaultBufferErrorHandler\<rparr>,
                   configClient = None\<rparr>;
          conf1 = fold (\<lambda>opt conf. opt conf) opts conf0;
          resolved = (case configClient conf1 of
                        Some cl \<Rightarrow> Inr (cl, conf1)
                      | None \<Rightarrow>
                          (case loadDefault of
                             Inl err \<Rightarrow> Inl (WrapError ''failed to load AWS config: '' err)
                           | Inr cl \<Rightarrow> Inr (cl, conf1\<lparr>configClient := Some cl\<rparr>)))
      in case resolved of
           Inl err \<Rightarrow> Inl err
         | Inr (cl, conf) \<Rightarrow>
             (let fl = \<lparr>client = cl, flushTimeout = bufferFlushTimeout (bufferConfig conf),
                        streamARN = arn\<rparr>;
                  kb = buffer_New lib fl
                         \<lparr>Threshold = recordWindow (bufferConfig conf),
                          WriteTimeout = writeTimeout (bufferConfig conf),
                          FlushTimeout = bufferFlushTimeout (bufferConfig conf),
                          FlushInterval = flushInterval (bufferConfig conf),
                          ErrHandler = errorHandler (bufferConfig conf)\<rparr>
              in Inr \<lparr>config = conf, kinesisBuffer = kb\<rparr>))"

text \<open>
  \<open>Write\<close>, lines 68 to 74: the loop over the tokens of the scanner. It ends with the
  wrapped error of the first enqueue that failed, or with nil, and lists the records it
  handed to the buffer, each with the error the buffer answered.
\<close>

fun Write_loop ::
  "('s, 'b) buffer \<Rightarrow> bytes list \<Rightarrow> 'b \<Rightarrow>
     error option \<times> (bytes \<times> error option) list \<times> 'b" where
  "Write_loop lib [] b = (None, [], b)"
| "Write_loop lib (line # rest) b =
     (case buffer_Write lib [line] b of
        ((n, Some err), b') \<Rightarrow>
          (Some (WrapError ''failed to write to buffer: '' err), [(line, Some err)], b')
      | ((n, None), b') \<Rightarrow>
          (case Write_loop lib rest b' of (e, tr, b'') \<Rightarrow> (e, (line, None) # tr, b'')))"

definition Write ::
  "('s, 'b) buffer \<Rightarrow> ('s, 'b) Writer \<Rightarrow> bytes \<Rightarrow>
     (int \<times> error option) \<times> (bytes \<times> error option) list \<times> ('s, 'b) Writer" where
  "Write lib w p =
     (case Write_loop lib (splitFunc (config w) p) (kinesisBuffer w) of
        (Some err, tr, b') \<Rightarrow> ((0, Some err), tr, w\<lparr>kinesisBuffer := b'\<rparr>)
      | (None, tr, b') \<Rightarrow> ((int (length p), None), tr, w\<lparr>kinesisBuffer := b'\<rparr>))"


definition Close :: "('s, 'b) buffer \<Rightarrow> ('s, 'b) Writer \<Rightarrow> error option \<times> ('s, 'b) Writer" where
  "Close lib w =
     (case buffer_Close lib (kinesisBuffer w) of
        (Some err, b') \<Rightarrow>
          (Some (WrapError ''failed to close buffer: '' err), w\<lparr>kinesisBuffer := b'\<rparr>)
      | (None, b') \<Rightarrow> (None, w\<lparr>kinesisBuffer := b'\<rparr>))"

section \<open>A sequential buffer\<close>

text \<open>
  Modelled from the spec: the buffering library is not under \<open>src/\<close>. This is the
  Batching Core of the specification (section 4.2) run by one thread: an enqueue adds to
  the current batch and flushes it when the record window is reached; a flush of an empty
  batch does nothing; a flush that fails hands the error and the batch to the error
  handler and drops the batch; an enqueue after close fails. The buffer state holds the
  world and lists the remote calls its flushes issued; each flush runs under a context
  \<open>c\<close>.
\<close>

record 's Batching =
  batchFlusher :: "'s flusher"
  batchOption :: BufferOption
  batch :: "bytes list"
  closed :: bool
  stderr :: string
  panicked :: "string option"
  issued :: "call list"
  outside :: "'s world"

definition ErrClosed :: error where
  "ErrClosed = ErrorString ''buffer is closed''"

definition flushBatch :: "Context \<Rightarrow> 's Batching \<Rightarrow> 's Batching" where
  "flushBatch c b =
     (if batch b = [] then b
      else (case Flush (batchFlusher b) c (batch b) (outside b) of (res, cls, w') \<Rightarrow>
              b\<lparr>batch := [],
                stderr := stderr b @
                  (case res of
                     Return (Some err) \<Rightarrow> ErrHandler (batchOption b) err (batch b)
                   | _ \<Rightarrow> []),
                panicked := (case res of Panic m \<Rightarrow> Some m | _ \<Rightarrow> panicked b),
                issued := issued b @ cls,
                outside := w'\<rparr>))"

definition Batching :: "Context \<Rightarrow> 's world \<Rightarrow> ('s, 's Batching) buffer" where
  "Batching c w0 =
     \<lparr>buffer_New = (\<lambda>fl opt.
        \<lparr>batchFlusher = fl, batchOption = opt, batch = [], closed = False, stderr = [],
         panicked = None, issued = [], outside = w0\<rparr>),
      buffer_Write = (\<lambda>elements b.
        if closed b then ((0, Some ErrClosed), b)
        else (let b1 = b\<lparr>batch := batch b @ elements\<rparr> in
              ((int (length elements), None),
               if unat (Threshold (batchOption b)) \<le> length (batch b1) then flushBatch c b1
               else b1))),
      buffer_Flush = flushBatch c,
      buffer_Close = (\<lambda>b. (None, (flushBatch c b)\<lparr>closed := True\<rparr>))\<rparr>"

section \<open>Vocabulary of the statements\<close>

text \<open>The three parts of what \<open>Flush\<close> and \<open>Write\<close> yield, and the records a call carried.\<close>

definition result :: "'a \<times> 'b \<times> 'c \<Rightarrow> 'a" where
  "result t = fst t"

definition calls :: "'a \<times> 'b \<times> 'c \<Rightarrow> 'b" where
  "calls t = fst (snd t)"

definition after :: "'a \<times> 'b \<times> 'c \<Rightarrow> 'c" where
  "after t = snd (snd t)"

definition sent :: "call \<Rightarrow> bytes list" where
  "sent cl = map Data (Records (fst cl))"


text \<open>
  A list of calls in which every call but the first carries exactly the failed subset
  read from the answer to the call before it, and that subset is not empty.
\<close>

fun resubmits :: "call list \<Rightarrow> bool" where
  "resubmits (cl # cl' # cls) =
     ((case snd cl of
         Inl err \<Rightarrow> False
       | Inr ret \<Rightarrow> failedOf (sent cl) ret = Return (sent cl') \<and> sent cl' \<noteq> [])
      \<and> resubmits (cl' # cls))"
| "resubmits cls = True"

text \<open>
  The two errors of \<open>Flush\<close>, and what \<open>Flush\<close> returns when a call with its answer was
  the last one.
\<close>

definition exhausted :: "nat \<Rightarrow> error" where
  "exhausted n =
     ErrorString (''failed to put records: '' @ Itoa (int n) @ '' records are failed'')"

definition hardError :: "error \<Rightarrow> error" where
  "hardError err =
     WrapError ''failed to put records: '' (WrapError ''failed to put records: '' err)"

definition verdict :: "call \<Rightarrow> (error + bytes list) outcome" where
  "verdict cl =
     (case snd cl of
        Inl err \<Rightarrow> Return (Inl (hardError err))
      | Inr ret \<Rightarrow>
          (case failedOf (sent cl) ret of
             Panic m \<Rightarrow> Panic m
           | Return fr \<Rightarrow> Return (Inr fr)))"

definition settled :: "call \<Rightarrow> error option outcome" where
  "settled cl =
     (case verdict cl of
        Panic m \<Rightarrow> Panic m
      | Return (Inl err) \<Rightarrow> Return (Some err)
      | Return (Inr fr) \<Rightarrow> Return (if fr = [] then None else Some (exhausted (length fr))))"




section \<open>Collaborators of the examples\<close>

text \<open>
  Clients in the style of the test clients, each keeping the inputs it received: one that
  cannot be reached, one that rejects every record, one that rejects every record of the
  first request and cannot be reached afterwards, and one that rejects every record but
  sets no failed count.
\<close>

definition unreachableClient :: "(PutRecordsInput list) KinesisClient" where
  "unreachableClient c params w =
     (Inl (ErrorString ''connection refused''), w\<lparr>remote := remote w @ [params]\<rparr>)"

definition rejectAll :: "PutRecordsInput \<Rightarrow> PutRecordsResultEntry list" where
  "rejectAll params =
     map (\<lambda>e. \<lparr>ErrorCode = Some ''error'', SequenceNumber = None, ShardId = None\<rparr>)
       (Records params)"

definition rejectingClient :: "(PutRecordsInput list) KinesisClient" where
  "rejectingClient c params w =
     (Inr \<lparr>ResultRecords = rejectAll params,
           FailedRecordCount = Some (int (length (Records params)))\<rparr>,
      w\<lparr>remote := remote w @ [params]\<rparr>)"

definition droppingClient :: "(PutRecordsInput list) KinesisClient" where
  "droppingClient c params w =
     (if remote w = [] then rejectingClient c params w else unreachableClient c params w)"

definition miscountingClient :: "(PutRecordsInput list) KinesisClient" where
  "miscountingClient c params w =
     (Inr \<lparr>ResultRecords = rejectAll params, FailedRecordCount = None\<rparr>,
      w\<lparr>remote := remote w @ [params]\<rparr>)"

definition testWorld :: "(PutRecordsInput list) world" where
  "testWorld = \<lparr>rand = (\<lambda>n. int n), drawn = 0, remote = []\<rparr>"

definition testFlusher :: "(PutRecordsInput list) KinesisClient \<Rightarrow> (PutRecordsInput list) flusher" where
  "testFlusher cl =
     \<lparr>client = cl, flushTimeout = defaultBufferFlushTimeout, streamARN = ''stream-arn''\<rparr>"

text \<open>A buffer with room for a number of records, whose enqueue times out when full.\<close>

definition ErrWriteTimeout :: error where
  "ErrWriteTimeout = ErrorString ''write timeout''"

definition boundedBuffer :: "('s, nat) buffer" where
  "boundedBuffer =
     \<lparr>buffer_New = (\<lambda>fl opt. unat (Threshold opt)),
      buffer_Write = (\<lambda>elements room.
        if room < length elements then ((0, Some ErrWriteTimeout), room)
        else ((int (length elements), None), room - length elements)),
      buffer_Flush = (\<lambda>room. room),
      buffer_Close = (\<lambda>room. (None, room))\<rparr>"

text \<open>The writer that \<open>New\<close> makes without options, over the bounded buffer.\<close>

definition testWriter :: "nat \<Rightarrow> (PutRecordsInput list, nat) Writer" where
  "testWriter room =
     \<lparr>config = \<lparr>splitFunc = ScanLines,
                bufferConfig = \<lparr>recordWindow = defaultBufferRecordWindow,
                                writeTimeout = defaultBufferWriteTimeout,
                                bufferFlushTimeout = defaultBufferFlushTimeout,
                                flushInterval = defaultBufferFlushInterval,
                                errorHandler = defaultBufferErrorHandler\<rparr>,
                configClient = Some successKinesisClient\<rparr>,
      kinesisBuffer = room\<rparr>"


section \<open>Properties of the flusher\<close>

lemma mkEntries_Data: "mkEntries rs w = (es, w') \<Longrightarrow> map Data es = rs"
  by (induction rs arbitrary: w es w') (auto split: prod.splits)

lemma putRecords_sent: "putRecords f c rs w = (res, cl, w') \<Longrightarrow> sent cl = rs"
  by (auto simp: putRecords_def sent_def Let_def
      split: prod.splits sum.splits outcome.splits dest: mkEntries_Data)

lemma putRecords_Inr:
  "putRecords f c rs w = (Return (Inr fr), cl, w') \<Longrightarrow>
     \<exists>ret. snd cl = Inr ret \<and> failedOf rs ret = Return fr"
  by (auto simp: putRecords_def Let_def split: prod.splits sum.splits outcome.splits)

lemma verdict_putRecords:
  "putRecords f c rs w = (res, cl, w') \<Longrightarrow>
     verdict cl =
       (case res of
          Return (Inl err) \<Rightarrow> Return (Inl (WrapError ''failed to put records: '' err))
        | _ \<Rightarrow> res)"
  by (auto simp: putRecords_def Let_def verdict_def sent_def hardError_def
      split: prod.splits sum.splits outcome.splits dest: mkEntries_Data)

lemma Continue_True:
  "Continue r = (True, r') \<Longrightarrow>
     count r' = count r + 1 \<and> policy r' = policy r \<and>
     (count r = 0 \<or> MaxCount (policy r) \<le> 0 \<or> count r' \<le> MaxCount (policy r))"
  by (auto simp: Continue_def Let_def split: if_splits nat.splits)

text \<open>The five ways through one round of the retry loop, as an induction rule.\<close>

lemma Flush_retry_induct [case_names stop panic err clean again]:
  assumes stop: "\<And>f c r fr w r'. Continue r = (False, r') \<Longrightarrow>
        Flush_retry f c r fr w = (Return (Inr fr), [], w) \<Longrightarrow> P f c r fr w"
    and panic: "\<And>f c r fr w r' m cl w'. Continue r = (True, r') \<Longrightarrow>
        putRecords f c fr w = (Panic m, cl, w') \<Longrightarrow>
        Flush_retry f c r fr w = (Panic m, [cl], w') \<Longrightarrow> P f c r fr w"
    and err: "\<And>f c r fr w r' e cl w'. Continue r = (True, r') \<Longrightarrow>
        putRecords f c fr w = (Return (Inl e), cl, w') \<Longrightarrow>
        Flush_retry f c r fr w =
          (Return (Inl (WrapError ''failed to put records: '' e)), [cl], w') \<Longrightarrow>
        P f c r fr w"
    and clean: "\<And>f c r fr w r' cl w'. Continue r = (True, r') \<Longrightarrow>
        putRecords f c fr w = (Return (Inr []), cl, w') \<Longrightarrow>
        Flush_retry f c r fr w = (Return (Inr []), [cl], w') \<Longrightarrow> P f c r fr w"
    and again: "\<And>f c r fr w r' fr' cl w' res cls w''. Continue r = (True, r') \<Longrightarrow>
        putRecords f c fr w = (Return (Inr fr'), cl, w') \<Longrightarrow> fr' \<noteq> [] \<Longrightarrow>
        Flush_retry f c r' fr' w' = (res, cls, w'') \<Longrightarrow>
        Flush_retry f c r fr w = (res, cl # cls, w'') \<Longrightarrow>
        P f c r' fr' w' \<Longrightarrow> P f c r fr w"
  shows "P f c r fr w"
proof (induction f c r fr w rule: Flush_retry.induct)
  case (1 f c r fr w)
  obtain b r' where C: "Continue r = (b, r')"
    by (cases "Continue r") auto
  obtain res cl w' where P: "putRecords f c fr w = (res, cl, w')"
    by (cases "putRecords f c fr w") auto
  show ?case
  proof (cases b)
    case False
    with C have C': "Continue r = (False, r')" by simp
    show ?thesis
      by (rule stop [OF C']) (simp add: Flush_retry.simps [of f c r] C')
  next
    case True
    with C have C': "Continue r = (True, r')" by simp
    show ?thesis
    proof (cases res)
      case (Panic m)
      with P have P': "putRecords f c fr w = (Panic m, cl, w')" by simp
      show ?thesis
        by (rule panic [OF C' P']) (simp add: Flush_retry.simps [of f c r] C' P')
    next
      case (Return x)
      show ?thesis
      proof (cases x)
        case (Inl e)
        with P Return have P': "putRecords f c fr w = (Return (Inl e), cl, w')" by simp
        show ?thesis
          by (rule err [OF C' P']) (simp add: Flush_retry.simps [of f c r] C' P')
      next
        case (Inr fr')
        with P Return have P': "putRecords f c fr w = (Return (Inr fr'), cl, w')" by simp
        show ?thesis
        proof (cases "fr' = []")
          case True
          with P' have P'': "putRecords f c fr w = (Return (Inr []), cl, w')" by simp
          show ?thesis
            by (rule clean [OF C' P'']) (simp add: Flush_retry.simps [of f c r] C' P'')
        next
          case False
          obtain res2 cls w'' where R: "Flush_retry f c r' fr' w' = (res2, cls, w'')"
            by (cases "Flush_retry f c r' fr' w'") auto
          have IH: "P f c r' fr' w'"
            using "1.IH" [of True r' "Return (Inr fr')" "(cl, w')" "Inr fr'" fr' cl w'] C' P' False
            by simp
          show ?thesis
            by (rule again [OF C' P' False R _ IH])
               (simp add: Flush_retry.simps [of f c r] C' P' False R)
        qed
      qed
    qed
  qed
qed

lemma Flush_retry_calls_le:
  "0 \<le> count r \<Longrightarrow> MaxCount (policy r) = 3 \<Longrightarrow>
     length (calls (Flush_retry f c r fr w)) \<le> nat (3 - count r)"
proof (induction f c r fr w rule: Flush_retry_induct)
  case (again f c r fr w r' fr' cl w' res cls w'')
  from Continue_True [OF again.hyps(1)] again.prems
  have "count r' = count r + 1" "MaxCount (policy r') = 3" "count r \<le> 2" by auto
  with again.IH again.prems have "length (calls (Flush_retry f c r' fr' w')) \<le> nat (2 - count r)"
    by simp
  with again.hyps(4) again.hyps(5) \<open>count r \<le> 2\<close> show ?case by (simp add: calls_def)
next
  case (stop f c r fr w r')
  then show ?case by (simp add: calls_def)
next
  case (panic f c r fr w r' m cl w')
  from Continue_True [OF panic.hyps(1)] panic.hyps(3) panic.prems
  show ?case by (auto simp: calls_def)
next
  case (err f c r fr w r' e cl w')
  from Continue_True [OF err.hyps(1)] err.hyps(3) err.prems
  show ?case by (auto simp: calls_def)
next
  case (clean f c r fr w r' cl w')
  from Continue_True [OF clean.hyps(1)] clean.hyps(3) clean.prems
  show ?case by (auto simp: calls_def)
qed

lemma Flush_retry_resubmits:
  "resubmits (calls (Flush_retry f c r fr w)) \<and>
   (calls (Flush_retry f c r fr w) \<noteq> [] \<longrightarrow>
      sent (hd (calls (Flush_retry f c r fr w))) = fr)"
proof (induction f c r fr w rule: Flush_retry_induct)
  case (again f c r fr w r' fr' cl w' res cls w'')
  from putRecords_Inr [OF again.hyps(2)] obtain ret
    where ret: "snd cl = Inr ret" "failedOf fr ret = Return fr'" by auto
  have s: "sent cl = fr" by (rule putRecords_sent [OF again.hyps(2)])
  from again.IH again.hyps(4) have IH: "resubmits cls" "cls \<noteq> [] \<longrightarrow> sent (hd cls) = fr'"
    by (simp_all add: calls_def)
  have "resubmits (cl # cls)"
  proof (cases cls)
    case Nil
    then show ?thesis by simp
  next
    case (Cons cl' rest)
    with IH ret s again.hyps(3) show ?thesis by simp
  qed
  with again.hyps(5) s show ?case by (simp add: calls_def)
qed (auto simp: calls_def dest: putRecords_sent)

lemma Flush_retry_last:
  "result (Flush_retry f c r fr w) =
     (if calls (Flush_retry f c r fr w) = [] then Return (Inr fr)
      else verdict (last (calls (Flush_retry f c r fr w))))"
proof (induction f c r fr w rule: Flush_retry_induct)
  case (again f c r fr w r' fr' cl w' res cls w'')
  have "calls (Flush_retry f c r' fr' w') = cls" and "result (Flush_retry f c r' fr' w') = res"
    using again.hyps(4) by (simp_all add: calls_def result_def)
  with again.IH
  have IH: "res = (if cls = [] then Return (Inr fr') else verdict (last cls))"
    by (simp only:)
  from verdict_putRecords [OF again.hyps(2)] have "verdict cl = Return (Inr fr')"
    by simp
  with IH have "res = verdict (last (cl # cls))"
    by simp
  with again.hyps(5) show ?case
    by (simp add: calls_def result_def)
qed (auto simp: calls_def result_def dest: verdict_putRecords)

text \<open>
  Every run of \<open>Flush\<close>: it issues at least one and at most four calls, the first with
  the whole batch, every later one with the failed subset of the one before, and what it
  returns is settled by the answer to the last call.
\<close>

lemma Flush_calls:
  assumes "Flush f c rs w = (res, cls, w')"
  shows "cls \<noteq> [] \<and> hd cls = fst (snd (putRecords f c rs w)) \<and> sent (hd cls) = rs
     \<and> resubmits cls \<and> length cls \<le> 4 \<and> res = settled (last cls)"
proof -
  obtain v cl w1 where P: "putRecords f c rs w = (v, cl, w1)"
    by (cases "putRecords f c rs w") auto
  note s = putRecords_sent [OF P]
  note vd = verdict_putRecords [OF P]
  show ?thesis
  proof (cases v)
    case (Panic m)
    with assms P s vd show ?thesis
      by (auto simp: Flush_def settled_def)
  next
    case (Return x)
    show ?thesis
    proof (cases x)
      case (Inl err)
      with Return assms P s vd show ?thesis
        by (auto simp: Flush_def settled_def)
    next
      case (Inr fr)
      show ?thesis
      proof (cases "fr = []")
        case True
        with Inr Return assms P s vd show ?thesis
          by (auto simp: Flush_def settled_def)
      next
        case False
        obtain v2 cls2 w2
          where R: "Flush_retry f c (Start (retryPolicy f) c) fr w1 = (v2, cls2, w2)"
          by (cases "Flush_retry f c (Start (retryPolicy f) c) fr w1") auto
        from Flush_retry_calls_le [of "Start (retryPolicy f) c" f c fr w1] R
        have len: "length cls2 \<le> 3"
          by (simp add: Start_def retryPolicy_def calls_def)
        from Flush_retry_resubmits [of f c "Start (retryPolicy f) c" fr w1] R
        have rs: "resubmits cls2" "cls2 \<noteq> [] \<longrightarrow> sent (hd cls2) = fr"
          by (simp_all add: calls_def)
        have "calls (Flush_retry f c (Start (retryPolicy f) c) fr w1) = cls2"
          and "result (Flush_retry f c (Start (retryPolicy f) c) fr w1) = v2"
          using R by (simp_all add: calls_def result_def)
        with Flush_retry_last [of f c "Start (retryPolicy f) c" fr w1]
        have la: "v2 = (if cls2 = [] then Return (Inr fr) else verdict (last cls2))"
          by (simp only:)
        from P Inr Return have P': "putRecords f c rs w = (Return (Inr fr), cl, w1)" by simp
        from putRecords_Inr [OF P'] s obtain ret
          where ret: "snd cl = Inr ret" "failedOf (sent cl) ret = Return fr" by auto
        have cls: "cls = cl # cls2"
          using assms P' False R
          by (auto simp: Flush_def split: outcome.splits sum.splits if_splits)
        have res: "res = (case v2 of Panic m \<Rightarrow> Panic m
                    | Return (Inl err) \<Rightarrow> Return (Some err)
                    | Return (Inr fr') \<Rightarrow>
                        Return (if fr' = [] then None else Some (exhausted (length fr'))))"
          using assms P' False R
          by (auto simp: Flush_def exhausted_def split: outcome.splits sum.splits if_splits)
        have "resubmits (cl # cls2)"
        proof (cases cls2)
          case Nil
          then show ?thesis by simp
        next
          case (Cons cl' rest)
          with rs ret False show ?thesis by simp
        qed
        moreover have "res = settled (last (cl # cls2))"
        proof (cases "cls2 = []")
          case True
          with la res vd Return Inr False show ?thesis by (simp add: settled_def)
        next
          case False
          with la res show ?thesis by (simp add: settled_def)
        qed
        ultimately show ?thesis using cls len s P by simp
      qed
    qed
  qed
qed


lemma resubmits_Inr:
  "resubmits cls \<Longrightarrow> Suc i < length cls \<Longrightarrow> \<exists>ret. snd (cls ! i) = Inr ret"
proof (induction cls arbitrary: i rule: resubmits.induct)
  case (1 cl cl' cls)
  show ?case
  proof (cases i)
    case 0
    with "1.prems" show ?thesis by (auto split: sum.splits)
  next
    case (Suc j)
    with "1.prems" "1.IH" [of j] show ?thesis by simp
  qed
qed simp_all

lemma resubmits_single:
  "resubmits cls \<Longrightarrow> cls \<noteq> [] \<Longrightarrow> snd (hd cls) = Inr ret \<Longrightarrow>
     failedOf (sent (hd cls)) ret = Return [] \<Longrightarrow> length cls = 1"
  by (induction cls rule: resubmits.induct) auto



lemma failedOf_zero:
  "FailedRecordCount ret = None \<or> FailedRecordCount ret = Some 0 \<Longrightarrow>
     failedOf rs ret = Return []"
  by (auto simp: failedOf_def)

lemma settled_Inl: "snd cl = Inl err \<Longrightarrow> settled cl = Return (Some (hardError err))"
  by (simp add: settled_def verdict_def)

lemma settled_Inr:
  "snd cl = Inr ret \<Longrightarrow> failedOf (sent cl) ret = Return fr \<Longrightarrow>
     settled cl = Return (if fr = [] then None else Some (exhausted (length fr)))"
  by (simp add: settled_def verdict_def)

lemma Flush_triple: "Flush f c rs w = (result (Flush f c rs w), calls (Flush f c rs w), after (Flush f c rs w))"
  by (simp add: result_def calls_def after_def)







text \<open>The equations that run the flusher on a given input.\<close>

lemmas run =
  Flush_def putRecords_def Let_def testFlusher_def testWorld_def rand_Int_def failedOf_def
  Flush_retry.simps Continue_def Start_def retryPolicy_def calls_def after_def result_def
  sent_def

section \<open>Claims about the flusher\<close>



text \<open>
  Claim C4. When a bulk call of a flush returns an error, be it the first call or a retry,
  that call is the last one of the flush, and \<open>Flush\<close> returns a hard error that wraps the
  error of the call.
\<close>

theorem Flush_transport_error:
  assumes "i < length (calls (Flush f c records w))"
    and "snd (calls (Flush f c records w) ! i) = Inl err"
  shows "result (Flush f c records w) =
      Return (Some (WrapError ''failed to put records: ''
                      (WrapError ''failed to put records: '' err)))
     \<and> Suc i = length (calls (Flush f c records w))"
proof -
  let ?cls = "calls (Flush f c records w)"
  from Flush_calls [OF Flush_triple, of f c records w]
  have ne: "?cls \<noteq> []" and rs: "resubmits ?cls"
    and res: "result (Flush f c records w) = settled (last ?cls)"
    by simp_all
  have "\<not> Suc i < length ?cls"
    using resubmits_Inr [OF rs, of i] assms(2) by auto
  with assms(1) have i: "Suc i = length ?cls" by simp
  have "length ?cls - 1 = i"
    using i [symmetric] by simp
  with last_conv_nth [OF ne] have "last ?cls = ?cls ! i"
    by simp
  with assms(2) res settled_Inl [of "last ?cls" err] i show ?thesis
    by (simp add: hardError_def)
qed

theorem Flush_transport_error_witness:
  "1 < length (calls (Flush (testFlusher droppingClient) 1 [''a'', ''b''] testWorld))
   \<and> snd (calls (Flush (testFlusher droppingClient) 1 [''a'', ''b''] testWorld) ! 1)
       = Inl (ErrorString ''connection refused'')
   \<and> result (Flush (testFlusher droppingClient) 1 [''a'', ''b''] testWorld) =
       Return (Some (WrapError ''failed to put records: ''
                       (WrapError ''failed to put records: ''
                          (ErrorString ''connection refused''))))
   \<and> Suc 1 = length (calls (Flush (testFlusher droppingClient) 1 [''a'', ''b''] testWorld))"
proof -
  have h1: "1 < length (calls (Flush (testFlusher droppingClient) 1 [''a'', ''b''] testWorld))"
    by (simp add: run droppingClient_def rejectingClient_def unreachableClient_def rejectAll_def)
  have h2: "snd (calls (Flush (testFlusher droppingClient) 1 [''a'', ''b''] testWorld) ! 1)
       = Inl (ErrorString ''connection refused'')"
    by (simp add: run droppingClient_def rejectingClient_def unreachableClient_def rejectAll_def)
  from Flush_transport_error [OF h1 h2] h1 h2 show ?thesis by blast
qed

text \<open>
  Claim C5. When the first call of a flush succeeds and reports no failed record (its
  failed count is nil or zero), \<open>Flush\<close> returns nil and issues no other call.
\<close>

theorem Flush_no_failure_no_retry:
  assumes "snd (hd (calls (Flush f c records w))) = Inr ret"
    and "FailedRecordCount ret = None \<or> FailedRecordCount ret = Some 0"
  shows "result (Flush f c records w) = Return None
     \<and> length (calls (Flush f c records w)) = 1"
proof -
  let ?cls = "calls (Flush f c records w)"
  from Flush_calls [OF Flush_triple, of f c records w]
  have ne: "?cls \<noteq> []" and rs: "resubmits ?cls"
    and res: "result (Flush f c records w) = settled (last ?cls)"
    by simp_all
  have z: "failedOf (sent (hd ?cls)) ret = Return []"
    by (rule failedOf_zero [OF assms(2)])
  from resubmits_single [OF rs ne assms(1) z] have one: "length ?cls = 1" .
  with ne have "last ?cls = hd ?cls"
    by (cases ?cls) auto
  with res settled_Inr [OF assms(1) z] one show ?thesis by simp
qed

theorem Flush_no_failure_no_retry_witness:
  "snd (hd (calls (Flush (testFlusher successKinesisClient) 1 [''record1''] testWorld))) =
     Inr \<lparr>ResultRecords =
            [\<lparr>ErrorCode = None, SequenceNumber = Some (Itoa 1), ShardId = Some (Itoa 2)\<rparr>],
          FailedRecordCount = None\<rparr>
   \<and> result (Flush (testFlusher successKinesisClient) 1 [''record1''] testWorld) = Return None
   \<and> length (calls (Flush (testFlusher successKinesisClient) 1 [''record1''] testWorld)) = 1"
proof -
  have h: "snd (hd (calls (Flush (testFlusher successKinesisClient) 1 [''record1''] testWorld)))
     = Inr \<lparr>ResultRecords =
              [\<lparr>ErrorCode = None, SequenceNumber = Some (Itoa 1), ShardId = Some (Itoa 2)\<rparr>],
            FailedRecordCount = None\<rparr>"
    by (simp add: run successKinesisClient_def)
  from Flush_no_failure_no_retry [OF h] h show ?thesis by simp
qed



text \<open>
  Claim C9. A response whose failed count is nil or zero is read as full success without a
  look at its entries: \<open>putRecords\<close> reports no failed record, whatever error codes the
  entries carry, and \<open>Flush\<close> returns nil after that one call.
\<close>

theorem putRecords_trusts_count:
  assumes "snd (calls (putRecords f c records w)) = Inr ret"
    and "FailedRecordCount ret = None \<or> FailedRecordCount ret = Some 0"
  shows "result (putRecords f c records w) = Return (Inr [])
     \<and> result (Flush f c records w) = Return None
     \<and> calls (Flush f c records w) = [calls (putRecords f c records w)]"
proof -
  obtain v cl w1 where P: "putRecords f c records w = (v, cl, w1)"
    by (cases "putRecords f c records w") auto
  with assms(1) have a: "snd cl = Inr ret" by (simp add: calls_def)
  from verdict_putRecords [OF P] a putRecords_sent [OF P] failedOf_zero [OF assms(2), of records]
  have v: "v = Return (Inr [])"
    by (auto simp: verdict_def split: outcome.splits sum.splits)
  with P show ?thesis
    by (simp add: Flush_def result_def calls_def)
qed

theorem putRecords_trusts_count_witness:
  "snd (calls (putRecords (testFlusher miscountingClient) 1 [''a'', ''b''] testWorld)) =
     Inr \<lparr>ResultRecords =
            [\<lparr>ErrorCode = Some ''error'', SequenceNumber = None, ShardId = None\<rparr>,
             \<lparr>ErrorCode = Some ''error'', SequenceNumber = None, ShardId = None\<rparr>],
          FailedRecordCount = None\<rparr>
   \<and> result (putRecords (testFlusher miscountingClient) 1 [''a'', ''b''] testWorld) = Return (Inr [])
   \<and> result (Flush (testFlusher miscountingClient) 1 [''a'', ''b''] testWorld) = Return None
   \<and> calls (Flush (testFlusher miscountingClient) 1 [''a'', ''b''] testWorld) =
       [calls (putRecords (testFlusher miscountingClient) 1 [''a'', ''b''] testWorld)]"
proof -
  have h: "snd (calls (putRecords (testFlusher miscountingClient) 1 [''a'', ''b''] testWorld)) =
     Inr \<lparr>ResultRecords =
            [\<lparr>ErrorCode = Some ''error'', SequenceNumber = None, ShardId = None\<rparr>,
             \<lparr>ErrorCode = Some ''error'', SequenceNumber = None, ShardId = None\<rparr>],
          FailedRecordCount = None\<rparr>"
    by (simp add: run miscountingClient_def rejectAll_def)
  from putRecords_trusts_count [OF h] h show ?thesis by simp
qed





section \<open>Claims about the writer\<close>




text \<open>
  Claim C8. A writer made by \<open>New\<close> without options has the default configuration: lines
  as records, a record window of 10, a write timeout of 5 seconds, a flush timeout and a
  flush interval of 30 seconds, and the handler that logs to the standard error stream;
  its client is the one resolved from the environment, and its buffer and flusher are set
  up with these values.
\<close>

theorem New_defaults:
  assumes "New lib loadDefault arn [] = Inr w"
  shows "splitFunc (config w) = ScanLines
     \<and> recordWindow (bufferConfig (config w)) = 10
     \<and> writeTimeout (bufferConfig (config w)) = 5 * Second
     \<and> bufferFlushTimeout (bufferConfig (config w)) = 30 * Second
     \<and> flushInterval (bufferConfig (config w)) = 30 * Second
     \<and> errorHandler (bufferConfig (config w)) = defaultBufferErrorHandler
     \<and> (\<exists>cl. loadDefault = Inr cl \<and> configClient (config w) = Some cl
           \<and> kinesisBuffer w =
               buffer_New lib \<lparr>client = cl, flushTimeout = 30 * Second, streamARN = arn\<rparr>
                 \<lparr>Threshold = 10, WriteTimeout = 5 * Second, FlushTimeout = 30 * Second,
                  FlushInterval = 30 * Second, ErrHandler = defaultBufferErrorHandler\<rparr>)"
  using assms
  by (auto simp: New_def Let_def defaultBufferRecordWindow_def defaultBufferWriteTimeout_def
      defaultBufferFlushTimeout_def defaultBufferFlushInterval_def split: sum.splits)

theorem New_defaults_witness:
  "New boundedBuffer (Inr successKinesisClient) ''stream-arn'' [] = Inr (testWriter 10)
   \<and> splitFunc (config (testWriter 10)) = ScanLines
   \<and> recordWindow (bufferConfig (config (testWriter 10))) = 10
   \<and> writeTimeout (bufferConfig (config (testWriter 10))) = 5000000000
   \<and> bufferFlushTimeout (bufferConfig (config (testWriter 10))) = 30000000000
   \<and> flushInterval (bufferConfig (config (testWriter 10))) = 30000000000
   \<and> errorHandler (bufferConfig (config (testWriter 10))) = defaultBufferErrorHandler"
proof -
  have h: "New boundedBuffer (Inr successKinesisClient) ''stream-arn'' [] = Inr (testWriter 10)"
    by (simp add: New_def boundedBuffer_def testWriter_def defaultBufferRecordWindow_def)
  from New_defaults [OF h] h show ?thesis
    by (simp add: Second_def)
qed

text \<open>The loop of \<open>Write\<close>: only the last enqueue can have failed.\<close>

lemma Write_loop_fail:
  "Write_loop lib ts b = (e, tr, b') \<Longrightarrow> (line, Some err) \<in> set tr \<Longrightarrow>
     e = Some (WrapError ''failed to write to buffer: '' err)"
  by (induction ts arbitrary: b e tr b')
     (auto split: prod.splits option.splits)

lemma Write_loop_pass:
  "Write_loop lib ts b = (e, tr, b') \<Longrightarrow> \<forall>x\<in>set tr. snd x = None \<Longrightarrow>
     e = None \<and> map fst tr = ts"
  by (induction ts arbitrary: b e tr b')
     (auto split: prod.splits option.splits)

lemma Write_triple:
  "\<exists>e tr b'. Write_loop lib (splitFunc (config w) p) (kinesisBuffer w) = (e, tr, b')
     \<and> calls (Write lib w p) = tr
     \<and> result (Write lib w p) = (case e of Some err \<Rightarrow> (0, Some err)
                                  | None \<Rightarrow> (int (length p), None))"
  by (cases "Write_loop lib (splitFunc (config w) p) (kinesisBuffer w)")
     (auto simp: Write_def calls_def result_def split: option.splits)







text \<open>The equations that run the writer over the bounded buffer on a given input.\<close>

lemmas runWrite =
  Write_def testWriter_def boundedBuffer_def ScanLines.simps Let_def LF_def CR_def dropCR_def
  MaxScanTokenSize_def calls_def result_def




text \<open>
  Claim C10. When an enqueue of a call of \<open>Write\<close> fails, \<open>Write\<close> returns 0 and the wrapped
  error of that enqueue, also when it handed records to the buffer before; when no enqueue
  fails it returns the length of the input and nil.
\<close>

theorem Write_count:
  "(\<forall>line err. (line, Some err) \<in> set (calls (Write lib w p)) \<longrightarrow>
      result (Write lib w p) = (0, Some (WrapError ''failed to write to buffer: '' err)))
   \<and> ((\<forall>x\<in>set (calls (Write lib w p)). snd x = None) \<longrightarrow>
      result (Write lib w p) = (int (length p), None))"
proof -
  from Write_triple [of lib w p] obtain e tr b'
    where L: "Write_loop lib (splitFunc (config w) p) (kinesisBuffer w) = (e, tr, b')"
      and tr: "calls (Write lib w p) = tr"
      and res: "result (Write lib w p) =
          (case e of Some err \<Rightarrow> (0, Some err) | None \<Rightarrow> (int (length p), None))"
    by blast
  have "result (Write lib w p) = (0, Some (WrapError ''failed to write to buffer: '' err))"
    if "(line, Some err) \<in> set tr" for line err
    using Write_loop_fail [OF L that] res by simp
  moreover have "result (Write lib w p) = (int (length p), None)"
    if "\<forall>x\<in>set tr. snd x = None"
    using Write_loop_pass [OF L that] res by simp
  ultimately show ?thesis
    unfolding tr by blast
qed

theorem Write_count_witness:
  "calls (Write boundedBuffer (testWriter 1) (''a'' @ [LF] @ ''b'')) =
     [(''a'', None), (''b'', Some ErrWriteTimeout)]
   \<and> result (Write boundedBuffer (testWriter 1) (''a'' @ [LF] @ ''b'')) =
       (0, Some (WrapError ''failed to write to buffer: '' ErrWriteTimeout))
   \<and> calls (Write boundedBuffer (testWriter 2) (''a'' @ [LF] @ ''b'')) =
       [(''a'', None), (''b'', None)]
   \<and> result (Write boundedBuffer (testWriter 2) (''a'' @ [LF] @ ''b'')) = (3, None)"
proof -
  have c1: "calls (Write boundedBuffer (testWriter 1) (''a'' @ [LF] @ ''b'')) =
     [(''a'', None), (''b'', Some ErrWriteTimeout)]"
    by (simp add: runWrite)
  have c2: "calls (Write boundedBuffer (testWriter 2) (''a'' @ [LF] @ ''b'')) =
     [(''a'', None), (''b'', None)]"
    by (simp add: runWrite)
  from c1 have m: "(''b'', Some ErrWriteTimeout)
      \<in> set (calls (Write boundedBuffer (testWriter 1) (''a'' @ [LF] @ ''b'')))"
    by simp
  from c2 have n: "\<forall>x\<in>set (calls (Write boundedBuffer (testWriter 2) (''a'' @ [LF] @ ''b''))).
      snd x = None"
    by simp
  from Write_count [of boundedBuffer "testWriter 1" "''a'' @ [LF] @ ''b''"] m
  have r1: "result (Write boundedBuffer (testWriter 1) (''a'' @ [LF] @ ''b'')) =
       (0, Some (WrapError ''failed to write to buffer: '' ErrWriteTimeout))"
    by blast
  from Write_count [of boundedBuffer "testWriter 2" "''a'' @ [LF] @ ''b''"] n
  have r2: "result (Write boundedBuffer (testWriter 2) (''a'' @ [LF] @ ''b'')) = (3, None)"
    by simp
  from c1 c2 r1 r2 show ?thesis by blast
qed


end
